theory Spec2Isabelle
  imports Main
begin

section \<open>The parser operator of the stanza helper package\<close>

text \<open>
  This theory embeds \<^verbatim>\<open>pkg/stanza/operator/helper/parser.go\<close>: the configuration
  \<^verbatim>\<open>ParserConfig\<close> with \<^verbatim>\<open>NewParserConfig\<close> and \<^verbatim>\<open>Build\<close>, and the operator
  \<^verbatim>\<open>ParserOperator\<close> with \<^verbatim>\<open>ProcessWith\<close>, \<^verbatim>\<open>ProcessWithCallback\<close> and \<^verbatim>\<open>ParseWith\<close>.

  The file calls into packages whose code is elsewhere (\<^verbatim>\<open>entry\<close>, \<^verbatim>\<open>errors\<close>, the
  transformer operator, the four sub-parsers). Their data is modelled from the
  specification's data model; their behaviour is left open, as parameters, so that every
  theorem about \<^verbatim>\<open>parser.go\<close> holds whatever those packages compute.
\<close>

subsection \<open>Values and errors\<close>

text \<open>
  Modelled from the spec: the Go type \<^verbatim>\<open>interface{}\<close> of entry bodies and parsed values
  is missing from the sources at hand; the specification describes it as an arbitrary semi-structured value
  (scalar, ordered sequence, or string-keyed mapping).
\<close>

datatype val =
    VNil
  | VStr string
  | VInt int
  | VSeq "val list"
  | VMap "(string \<times> val) list"

text \<open>
  Modelled from the spec: package \<^verbatim>\<open>errors\<close> is missing. An error is kept symbolically:
  \<open>ErrorString\<close> is an error made by a collaborator, \<open>NewError\<close> is
  \<^verbatim>\<open>errors.NewError(description, suggestion, keyValues...)\<close> and \<open>Wrap\<close> is
  \<^verbatim>\<open>errors.Wrap(err, description)\<close>. A Go \<^verbatim>\<open>error\<close> result is an \<open>error option\<close>,
  \<open>None\<close> being \<^verbatim>\<open>nil\<close>.
\<close>

datatype error =
    ErrorString string
  | NewError string string "(string \<times> string) list"
  | Wrap error string

subsection \<open>Fields and entries\<close>

text \<open>
  Modelled from the spec: package \<^verbatim>\<open>entry\<close> is missing. A field is an address into an
  entry: the body, the attributes or the resource, followed by a path of keys and indices;
  the empty path addresses the whole container. \<open>NilField\<close> is Go's zero value
  \<^verbatim>\<open>entry.Field{}\<close>, which addresses nothing.
\<close>

datatype key = Key string | Index nat

datatype Field =
    NilField
  | BodyField "key list"
  | AttributeField "key list"
  | ResourceField "key list"

definition NewBodyField :: "key list \<Rightarrow> Field" where
  "NewBodyField keys = BodyField keys"

definition NewAttributeField :: "key list \<Rightarrow> Field" where
  "NewAttributeField keys = AttributeField keys"

type_synonym time = int
type_synonym severity = nat

text \<open>
  Modelled from the spec: the entry of the data model, with its four typed slots
  (timestamp, severity, trace, scope name) beside body, attributes and resource.
\<close>

record Entry =
  Timestamp :: "time option"
  Body :: val
  Attributes :: "(string \<times> val) list"
  Resource :: "(string \<times> val) list"
  Severity :: "severity option"
  TraceContext :: "(string \<times> string \<times> string) option"
  ScopeName :: "string option"

text \<open>
  Modelled from the spec: \<^verbatim>\<open>get(entry) -> (value, found)\<close> walks the addressed
  container, returns not-found when a path segment is absent and never creates structure.
  It gives the fields their meaning; \<^verbatim>\<open>ParseWith\<close> below does not depend on it.
\<close>

fun descend :: "val \<Rightarrow> key list \<Rightarrow> val \<times> bool" where
  "descend v [] = (v, True)"
| "descend (VMap m) (Key k # ks) =
     (case map_of m k of None \<Rightarrow> (VNil, False) | Some v \<Rightarrow> descend v ks)"
| "descend (VSeq xs) (Index i # ks) =
     (if i < length xs then descend (xs ! i) ks else (VNil, False))"
| "descend _ (_ # _) = (VNil, False)"

fun Field_Get :: "Entry \<Rightarrow> Field \<Rightarrow> val \<times> bool" where
  "Field_Get e NilField = (VNil, False)"
| "Field_Get e (BodyField ks) = descend (Body e) ks"
| "Field_Get e (AttributeField ks) = descend (VMap (Attributes e)) ks"
| "Field_Get e (ResourceField ks) = descend (VMap (Resource e)) ks"

subsection \<open>Sub-parsers\<close>

text \<open>
  Modelled from the spec: the types \<^verbatim>\<open>TimeParser\<close>, \<^verbatim>\<open>Config\<close> (the severity
  configuration), \<^verbatim>\<open>SeverityParser\<close>, \<^verbatim>\<open>TraceParser\<close> and \<^verbatim>\<open>ScopeNameParser\<close> are
  missing. The specification gives the sub-parser contract: \<^verbatim>\<open>Validate() -> error\<close> and
  \<^verbatim>\<open>Parse(entry) -> error\<close>, one implementation per enrichment kind. A sub-parser is
  the record of its methods: the result of \<^verbatim>\<open>Validate()\<close>, and \<^verbatim>\<open>Parse\<close> as a function
  from the entry it is given to the entry it leaves and its error. The severity
  configuration has \<^verbatim>\<open>Build(logger)\<close>, which returns the severity parser and an error.
\<close>

record TimeParser =
  TimeParser_Validate :: "error option"
  TimeParser_Parse :: "Entry \<Rightarrow> Entry \<times> error option"

record SeverityParser =
  SeverityParser_Parse :: "Entry \<Rightarrow> Entry \<times> error option"

record Config =
  Config_Build :: "SeverityParser \<times> error option"

record TraceParser =
  TraceParser_Validate :: "error option"
  TraceParser_Parse :: "Entry \<Rightarrow> Entry \<times> error option"

record ScopeNameParser =
  ScopeNameParser_Validate :: "error option"
  ScopeNameParser_Parse :: "Entry \<Rightarrow> Entry \<times> error option"

subsection \<open>The code outside \<^verbatim>\<open>parser.go\<close>\<close>

text \<open>
  The transformer configuration \<open>'tc\<close> and the transformer operator \<open>'to\<close> are types of
  other files, and so are the functions below; they are parameters of the model.
  \<open>zero_TransformerOperator\<close> is the zero value \<^verbatim>\<open>TransformerOperator{}\<close>.
  \<open>Skip\<close> returns Go's pair \<^verbatim>\<open>(bool, error)\<close>, \<open>Entry_Get\<close> the pair
  \<^verbatim>\<open>(value, ok)\<close>, and \<open>Entry_Set\<close> the entry as the call leaves it and its error.

  Modelled from the spec: the skip condition is a boolean-valued condition evaluated
  against the entry, and the error policy hands the entry on unchanged from the point of
  failure; so \<open>Skip\<close> and \<open>HandleEntryError\<close> read the entry and do not change it.
\<close>

record ('tc, 'to) env =
  NewTransformerConfig :: "string \<Rightarrow> string \<Rightarrow> 'tc"
  TransformerConfig_Build :: "'tc \<Rightarrow> 'to \<times> error option"
  zero_TransformerOperator :: "'to"
  Skip :: "'to \<Rightarrow> Entry \<Rightarrow> bool \<times> error option"
  HandleEntryError :: "'to \<Rightarrow> Entry \<Rightarrow> error \<Rightarrow> error option"
  Entry_Get :: "Entry \<Rightarrow> Field \<Rightarrow> val \<times> bool"
  Entry_Set :: "Entry \<Rightarrow> Field \<Rightarrow> val \<Rightarrow> Entry \<times> error option"
  Field_String :: "Field \<Rightarrow> string"

subsection \<open>\<^verbatim>\<open>ParserConfig\<close>, \<^verbatim>\<open>NewParserConfig\<close> and \<^verbatim>\<open>Build\<close>\<close>

text \<open>
  The fields of \<^verbatim>\<open>ParserConfig\<close> carry the prefix \<open>c_\<close> and those of
  \<^verbatim>\<open>ParserOperator\<close> the prefix \<open>p_\<close>, after the receivers \<^verbatim>\<open>c\<close> and \<^verbatim>\<open>p\<close> of the
  source. A nil pointer is \<open>None\<close>.
\<close>

record 'tc ParserConfig =
  c_TransformerConfig :: "'tc"
  c_ParseFrom :: Field
  c_ParseTo :: Field
  c_TimeParser :: "TimeParser option"
  c_Config :: "Config option"
  c_TraceParser :: "TraceParser option"
  c_ScopeNameParser :: "ScopeNameParser option"

record 'to ParserOperator =
  p_TransformerOperator :: "'to"
  p_ParseFrom :: Field
  p_ParseTo :: Field
  p_TimeParser :: "TimeParser option"
  p_SeverityParser :: "SeverityParser option"
  p_TraceParser :: "TraceParser option"
  p_ScopeNameParser :: "ScopeNameParser option"

definition NewParserConfig :: "('tc, 'to) env \<Rightarrow> string \<Rightarrow> string \<Rightarrow> 'tc ParserConfig" where
  "NewParserConfig E operatorID operatorType =
     \<lparr> c_TransformerConfig = NewTransformerConfig E operatorID operatorType,
       c_ParseFrom = NewBodyField [],
       c_ParseTo = NewAttributeField [],
       c_TimeParser = None,
       c_Config = None,
       c_TraceParser = None,
       c_ScopeNameParser = None \<rparr>"

text \<open>The zero value \<^verbatim>\<open>ParserOperator{}\<close>: every field is the zero value of its type.\<close>

definition zero_ParserOperator :: "('tc, 'to) env \<Rightarrow> 'to ParserOperator" where
  "zero_ParserOperator E =
     \<lparr> p_TransformerOperator = zero_TransformerOperator E,
       p_ParseFrom = NilField,
       p_ParseTo = NilField,
       p_TimeParser = None,
       p_SeverityParser = None,
       p_TraceParser = None,
       p_ScopeNameParser = None \<rparr>"

text \<open>
  \<^verbatim>\<open>Build\<close> returns Go's pair \<^verbatim>\<open>(ParserOperator, error)\<close>. The logger is only handed
  on to the builders of other files and is left out. Each \<^verbatim>\<open>if\<close> block of the source is
  one step on the operator under construction; an early \<^verbatim>\<open>return ParserOperator{}, err\<close>
  is the \<open>Some\<close> branch of the step's \<open>case\<close>.
\<close>

definition Build :: "('tc, 'to) env \<Rightarrow> 'tc ParserConfig \<Rightarrow> 'to ParserOperator \<times> error option" where
  "Build E c =
     (let (transformerOperator, err) = TransformerConfig_Build E (c_TransformerConfig c) in
      case err of
        Some er \<Rightarrow> (zero_ParserOperator E, Some er)
      | None \<Rightarrow>
     (let parserOperator =
            \<lparr> p_TransformerOperator = transformerOperator,
              p_ParseFrom = c_ParseFrom c,
              p_ParseTo = c_ParseTo c,
              p_TimeParser = None,
              p_SeverityParser = None,
              p_TraceParser = None,
              p_ScopeNameParser = None \<rparr> in
      case (case c_TimeParser c of None \<Rightarrow> None | Some tp \<Rightarrow> TimeParser_Validate tp) of
        Some er \<Rightarrow> (zero_ParserOperator E, Some er)
      | None \<Rightarrow>
     (let parserOperator =
            (case c_TimeParser c of
               None \<Rightarrow> parserOperator
             | Some tp \<Rightarrow> parserOperator\<lparr>p_TimeParser := c_TimeParser c\<rparr>) in
      case (case c_Config c of None \<Rightarrow> None | Some sc \<Rightarrow> snd (Config_Build sc)) of
        Some er \<Rightarrow> (zero_ParserOperator E, Some er)
      | None \<Rightarrow>
     (let parserOperator =
            (case c_Config c of
               None \<Rightarrow> parserOperator
             | Some sc \<Rightarrow> parserOperator\<lparr>p_SeverityParser := Some (fst (Config_Build sc))\<rparr>) in
      case (case c_TraceParser c of None \<Rightarrow> None | Some trp \<Rightarrow> TraceParser_Validate trp) of
        Some er \<Rightarrow> (zero_ParserOperator E, Some er)
      | None \<Rightarrow>
     (let parserOperator =
            (case c_TraceParser c of
               None \<Rightarrow> parserOperator
             | Some trp \<Rightarrow> parserOperator\<lparr>p_TraceParser := c_TraceParser c\<rparr>) in
      let parserOperator =
            (case c_ScopeNameParser c of
               None \<Rightarrow> parserOperator
             | Some snp \<Rightarrow> parserOperator\<lparr>p_ScopeNameParser := c_ScopeNameParser c\<rparr>) in
      (parserOperator, None))))))"

subsection \<open>Calls and their record\<close>

text \<open>
  An operator acts on the entry it is given, through a pointer, and on its surroundings:
  it hands the entry to the error policy or forwards it to the next operators. The state
  threaded through the model is the entry together with the list of the calls made so
  far, oldest first. \<open>Write_called e\<close> is the forwarding of \<open>e\<close>, and
  \<open>HandleEntryError_called e err\<close> the handing of \<open>e\<close> and \<open>err\<close> to the error policy.
\<close>

datatype event =
    Skip_called
  | Get_called Field
  | parse_called val
  | Set_called Field val
  | TimeParser_Parse_called
  | SeverityParser_Parse_called
  | TraceParser_Parse_called
  | ScopeNameParser_Parse_called
  | cb_called
  | HandleEntryError_called Entry error
  | Write_called Entry

type_synonym outcome = "error option \<times> Entry \<times> event list"

definition call_HandleEntryError ::
  "('tc, 'to) env \<Rightarrow> 'to ParserOperator \<Rightarrow> Entry \<Rightarrow> event list \<Rightarrow> error \<Rightarrow> outcome" where
  "call_HandleEntryError E p entry tr err =
     (HandleEntryError E (p_TransformerOperator p) entry err,
      entry, tr @ [HandleEntryError_called entry err])"

definition call_Write :: "Entry \<Rightarrow> event list \<Rightarrow> event list" where
  "call_Write entry tr = tr @ [Write_called entry]"

text \<open>
  The four blocks \<^verbatim>\<open>var err error; if p.X != nil { err = p.X.Parse(entry) }\<close> of
  \<^verbatim>\<open>ParseWith\<close>: each returns the error of its sub-parser (nil when there is none), the
  entry as the sub-parser leaves it, and the calls.
\<close>

definition run_TimeParser :: "'to ParserOperator \<Rightarrow> Entry \<Rightarrow> event list \<Rightarrow> outcome" where
  "run_TimeParser p entry tr =
     (case p_TimeParser p of
        None \<Rightarrow> (None, entry, tr)
      | Some tp \<Rightarrow>
          (let (entry', err) = TimeParser_Parse tp entry
           in (err, entry', tr @ [TimeParser_Parse_called])))"

definition run_SeverityParser :: "'to ParserOperator \<Rightarrow> Entry \<Rightarrow> event list \<Rightarrow> outcome" where
  "run_SeverityParser p entry tr =
     (case p_SeverityParser p of
        None \<Rightarrow> (None, entry, tr)
      | Some sp \<Rightarrow>
          (let (entry', err) = SeverityParser_Parse sp entry
           in (err, entry', tr @ [SeverityParser_Parse_called])))"

definition run_TraceParser :: "'to ParserOperator \<Rightarrow> Entry \<Rightarrow> event list \<Rightarrow> outcome" where
  "run_TraceParser p entry tr =
     (case p_TraceParser p of
        None \<Rightarrow> (None, entry, tr)
      | Some trp \<Rightarrow>
          (let (entry', err) = TraceParser_Parse trp entry
           in (err, entry', tr @ [TraceParser_Parse_called])))"

definition run_ScopeNameParser :: "'to ParserOperator \<Rightarrow> Entry \<Rightarrow> event list \<Rightarrow> outcome" where
  "run_ScopeNameParser p entry tr =
     (case p_ScopeNameParser p of
        None \<Rightarrow> (None, entry, tr)
      | Some snp \<Rightarrow>
          (let (entry', err) = ScopeNameParser_Parse snp entry
           in (err, entry', tr @ [ScopeNameParser_Parse_called])))"

subsection \<open>\<^verbatim>\<open>ParseWith\<close>, \<^verbatim>\<open>ProcessWithCallback\<close> and \<^verbatim>\<open>ProcessWith\<close>\<close>

type_synonym ParseFunction = "val \<Rightarrow> val \<times> error option"

definition ParseWith ::
  "('tc, 'to) env \<Rightarrow> 'to ParserOperator \<Rightarrow> Entry \<Rightarrow> event list \<Rightarrow> ParseFunction \<Rightarrow> outcome" where
  "ParseWith E p entry tr parse =
     (let (value, ok) = Entry_Get E entry (p_ParseFrom p);
          tr = tr @ [Get_called (p_ParseFrom p)] in
      if \<not> ok then
        (let err = NewError ''Entry is missing the expected parse_from field.''
                     ''Ensure that all incoming entries contain the parse_from field.''
                     [(''parse_from'', Field_String E (p_ParseFrom p))]
         in call_HandleEntryError E p entry tr err)
      else
     (let (newValue, err) = parse value;
          tr = tr @ [parse_called value] in
      case err of
        Some er \<Rightarrow> call_HandleEntryError E p entry tr er
      | None \<Rightarrow>
     (let (entry, err) = Entry_Set E entry (p_ParseTo p) newValue;
          tr = tr @ [Set_called (p_ParseTo p) newValue] in
      case err of
        Some er \<Rightarrow> call_HandleEntryError E p entry tr (Wrap er ''set parse_to'')
      | None \<Rightarrow>
     (let (timeParseErr, entry, tr) = run_TimeParser p entry tr;
          (severityParseErr, entry, tr) = run_SeverityParser p entry tr;
          (traceParseErr, entry, tr) = run_TraceParser p entry tr;
          (scopeNameParserErr, entry, tr) = run_ScopeNameParser p entry tr in
      case timeParseErr of
        Some er \<Rightarrow> call_HandleEntryError E p entry tr (Wrap er ''time parser'')
      | None \<Rightarrow>
     (case severityParseErr of
        Some er \<Rightarrow> call_HandleEntryError E p entry tr (Wrap er ''severity parser'')
      | None \<Rightarrow>
     (case traceParseErr of
        Some er \<Rightarrow> call_HandleEntryError E p entry tr (Wrap er ''trace parser'')
      | None \<Rightarrow>
     (case scopeNameParserErr of
        Some er \<Rightarrow> call_HandleEntryError E p entry tr (Wrap er ''scope_name parser'')
      | None \<Rightarrow> (None, entry, tr))))))))"

text \<open>
  The callback \<^verbatim>\<open>cb\<close> is a function pointer, \<open>None\<close> when nil; it receives the entry by
  pointer, so it returns the entry as it leaves it, with its error.
\<close>

definition ProcessWithCallback ::
  "('tc, 'to) env \<Rightarrow> 'to ParserOperator \<Rightarrow> Entry \<Rightarrow> event list \<Rightarrow> ParseFunction \<Rightarrow>
     (Entry \<Rightarrow> Entry \<times> error option) option \<Rightarrow> outcome" where
  "ProcessWithCallback E p entry tr parse cb =
     (let (skip, err) = Skip E (p_TransformerOperator p) entry;
          tr = tr @ [Skip_called] in
      case err of
        Some er \<Rightarrow> call_HandleEntryError E p entry tr er
      | None \<Rightarrow>
      if skip then (None, entry, call_Write entry tr)
      else
     (let (err, entry, tr) = ParseWith E p entry tr parse in
      case err of
        Some er \<Rightarrow> (Some er, entry, tr)
      | None \<Rightarrow>
     (case cb of
        None \<Rightarrow> (None, entry, call_Write entry tr)
      | Some f \<Rightarrow>
          (let (entry, err) = f entry;
               tr = tr @ [cb_called] in
           case err of
             Some er \<Rightarrow> (Some er, entry, tr)
           | None \<Rightarrow> (None, entry, call_Write entry tr)))))"

definition ProcessWith ::
  "('tc, 'to) env \<Rightarrow> 'to ParserOperator \<Rightarrow> Entry \<Rightarrow> event list \<Rightarrow> ParseFunction \<Rightarrow> outcome" where
  "ProcessWith E p entry tr parse = ProcessWithCallback E p entry tr parse None"

section \<open>What the specification says, as definitions\<close>

subsection \<open>The reported error\<close>

text \<open>
  The specification's rule for the single reported error: of the outcomes of the
  sub-parsers, listed in priority order with the name of each, the first failure, wrapped
  with that name.
\<close>

fun first_failure :: "(error option \<times> string) list \<Rightarrow> error option" where
  "first_failure [] = None"
| "first_failure ((None, name) # rs) = first_failure rs"
| "first_failure ((Some err, name) # rs) = Some (Wrap err name)"

subsection \<open>The calls of the configured sub-parsers\<close>

text \<open>
  One call for each configured sub-parser, in the order time, severity, trace, scope
  name; and the classes of calls the theorems tell apart.
\<close>

definition sub_parser_calls :: "'to ParserOperator \<Rightarrow> event list" where
  "sub_parser_calls p =
     (case p_TimeParser p of None \<Rightarrow> [] | Some _ \<Rightarrow> [TimeParser_Parse_called]) @
     (case p_SeverityParser p of None \<Rightarrow> [] | Some _ \<Rightarrow> [SeverityParser_Parse_called]) @
     (case p_TraceParser p of None \<Rightarrow> [] | Some _ \<Rightarrow> [TraceParser_Parse_called]) @
     (case p_ScopeNameParser p of None \<Rightarrow> [] | Some _ \<Rightarrow> [ScopeNameParser_Parse_called])"


fun is_Write_called :: "event \<Rightarrow> bool" where
  "is_Write_called (Write_called _) = True"
| "is_Write_called _ = False"

fun is_HandleEntryError_called :: "event \<Rightarrow> bool" where
  "is_HandleEntryError_called (HandleEntryError_called _ _) = True"
| "is_HandleEntryError_called _ = False"

subsection \<open>Sub-parsers that fill one slot\<close>

text \<open>
  Modelled from the spec: the \<^verbatim>\<open>Parse\<close> methods of the sub-parsers are missing. The
  specification says that a sub-parser reads a field and mutates the corresponding entry
  slot on success, and leaves its slot untouched on failure. \<open>slot_Timestamp read\<close> is
  such a \<^verbatim>\<open>Parse\<close>: \<open>read\<close> extracts the value from the entry or fails; on success the
  slot is set, on failure the entry is left as it was. \<open>enrich_Timestamp\<close> is the
  effect the specification expects of the time step as a whole on the entry (nothing
  when the sub-parser is not configured). Likewise for the three other slots.
\<close>

definition slot_Timestamp :: "(Entry \<Rightarrow> error + time) \<Rightarrow> Entry \<Rightarrow> Entry \<times> error option" where
  "slot_Timestamp read e =
     (case read e of Inl err \<Rightarrow> (e, Some err) | Inr t \<Rightarrow> (e\<lparr>Timestamp := Some t\<rparr>, None))"

definition slot_Severity :: "(Entry \<Rightarrow> error + severity) \<Rightarrow> Entry \<Rightarrow> Entry \<times> error option" where
  "slot_Severity read e =
     (case read e of Inl err \<Rightarrow> (e, Some err) | Inr s \<Rightarrow> (e\<lparr>Severity := Some s\<rparr>, None))"

definition slot_TraceContext ::
  "(Entry \<Rightarrow> error + string \<times> string \<times> string) \<Rightarrow> Entry \<Rightarrow> Entry \<times> error option" where
  "slot_TraceContext read e =
     (case read e of Inl err \<Rightarrow> (e, Some err) | Inr c \<Rightarrow> (e\<lparr>TraceContext := Some c\<rparr>, None))"

definition slot_ScopeName :: "(Entry \<Rightarrow> error + string) \<Rightarrow> Entry \<Rightarrow> Entry \<times> error option" where
  "slot_ScopeName read e =
     (case read e of Inl err \<Rightarrow> (e, Some err) | Inr n \<Rightarrow> (e\<lparr>ScopeName := Some n\<rparr>, None))"





subsection \<open>The checks of \<^verbatim>\<open>Build\<close>\<close>

text \<open>
  The build-time checks whose failure makes \<^verbatim>\<open>Build\<close> fail, in the order of the
  source: the transformer configuration, \<^verbatim>\<open>Validate()\<close> of the time sub-parser,
  \<^verbatim>\<open>Build\<close> of the severity configuration, \<^verbatim>\<open>Validate()\<close> of the trace sub-parser.
  \<open>first_error\<close> is the first failure of a list of outcomes.
\<close>

fun first_error :: "error option list \<Rightarrow> error option" where
  "first_error [] = None"
| "first_error (None # rs) = first_error rs"
| "first_error (Some err # rs) = Some err"

definition build_checks :: "('tc, 'to) env \<Rightarrow> 'tc ParserConfig \<Rightarrow> error option list" where
  "build_checks E c =
     [snd (TransformerConfig_Build E (c_TransformerConfig c)),
      (case c_TimeParser c of None \<Rightarrow> None | Some tp \<Rightarrow> TimeParser_Validate tp),
      (case c_Config c of None \<Rightarrow> None | Some sc \<Rightarrow> snd (Config_Build sc)),
      (case c_TraceParser c of None \<Rightarrow> None | Some trp \<Rightarrow> TraceParser_Validate trp)]"

section \<open>A concrete operator\<close>

text \<open>
  An instance of the parameters, used to run the theorems on concrete entries. The skip
  condition holds for an entry with an empty body and cannot be evaluated on a sequence;
  the error policy returns the error it is given; entries are read with \<open>Field_Get\<close>
  and written at the two roots only. The parse function splits a five-letter level from
  the message. On the entry \<open>example_entry\<close> the time and trace sub-parsers fail (the
  parsed attributes hold neither \<^verbatim>\<open>ts\<close> nor \<^verbatim>\<open>trace_id\<close>) while the severity and
  scope-name sub-parsers succeed. The validation of the scope-name sub-parser reports an
  error; those of the time and trace sub-parsers report none.
\<close>

definition example_Skip :: "string \<Rightarrow> Entry \<Rightarrow> bool \<times> error option" where
  "example_Skip t e =
     (case Body e of
        VNil \<Rightarrow> (True, None)
      | VSeq xs \<Rightarrow> (False, Some (ErrorString ''if: body is a sequence''))
      | _ \<Rightarrow> (False, None))"

fun example_Set :: "Entry \<Rightarrow> Field \<Rightarrow> val \<Rightarrow> Entry \<times> error option" where
  "example_Set e (BodyField []) v = (e\<lparr>Body := v\<rparr>, None)"
| "example_Set e (AttributeField []) (VMap m) = (e\<lparr>Attributes := m\<rparr>, None)"
| "example_Set e f v = (e, Some (ErrorString ''cannot set''))"

definition example_env :: "(string, string) env" where
  "example_env =
     \<lparr> NewTransformerConfig = (\<lambda>operatorID operatorType. operatorID),
       TransformerConfig_Build =
         (\<lambda>tc. if tc = [] then ([], Some (ErrorString ''missing required field id''))
               else (tc, None)),
       zero_TransformerOperator = [],
       Skip = example_Skip,
       HandleEntryError = (\<lambda>t e err. Some err),
       Entry_Get = Field_Get,
       Entry_Set = example_Set,
       Field_String = (\<lambda>f. ''field'') \<rparr>"

definition example_parse :: "val \<Rightarrow> val \<times> error option" where
  "example_parse v =
     (case v of
        VStr s \<Rightarrow> (VMap [(''level'', VStr (take 5 s)), (''message'', VStr (drop 6 s))], None)
      | _ \<Rightarrow> (VNil, Some (ErrorString ''not a string'')))"

definition example_read_time :: "Entry \<Rightarrow> error + time" where
  "example_read_time e =
     (case Field_Get e (AttributeField [Key ''ts'']) of
        (VInt t, True) \<Rightarrow> Inr t
      | _ \<Rightarrow> Inl (ErrorString ''no timestamp''))"

definition example_read_severity :: "Entry \<Rightarrow> error + severity" where
  "example_read_severity e =
     (case Field_Get e (AttributeField [Key ''level'']) of
        (VStr s, True) \<Rightarrow> if s = ''ERROR'' then Inr 17 else Inl (ErrorString ''unknown level'')
      | _ \<Rightarrow> Inl (ErrorString ''no level''))"

definition example_read_trace :: "Entry \<Rightarrow> error + string \<times> string \<times> string" where
  "example_read_trace e =
     (case Field_Get e (AttributeField [Key ''trace_id'']) of
        (VStr s, True) \<Rightarrow> Inr (s, [], [])
      | _ \<Rightarrow> Inl (ErrorString ''no trace id''))"

definition example_read_scope :: "Entry \<Rightarrow> error + string" where
  "example_read_scope e =
     (case Field_Get e (AttributeField [Key ''message'']) of
        (VStr s, True) \<Rightarrow> Inr s
      | _ \<Rightarrow> Inl (ErrorString ''no scope name''))"

definition example_TimeParser :: TimeParser where
  "example_TimeParser =
     \<lparr> TimeParser_Validate = None, TimeParser_Parse = slot_Timestamp example_read_time \<rparr>"

definition example_SeverityParser :: SeverityParser where
  "example_SeverityParser = \<lparr> SeverityParser_Parse = slot_Severity example_read_severity \<rparr>"

definition example_TraceParser :: TraceParser where
  "example_TraceParser =
     \<lparr> TraceParser_Validate = None, TraceParser_Parse = slot_TraceContext example_read_trace \<rparr>"

definition example_ScopeNameParser :: ScopeNameParser where
  "example_ScopeNameParser =
     \<lparr> ScopeNameParser_Validate = Some (ErrorString ''invalid scope_name''),
       ScopeNameParser_Parse = slot_ScopeName example_read_scope \<rparr>"

definition example_config :: "string ParserConfig" where
  "example_config =
     (NewParserConfig example_env ''demo'' ''regex_parser'')
       \<lparr> c_TimeParser := Some example_TimeParser,
         c_Config := Some \<lparr> Config_Build = (example_SeverityParser, None) \<rparr>,
         c_TraceParser := Some example_TraceParser,
         c_ScopeNameParser := Some example_ScopeNameParser \<rparr>"

definition example_operator :: "string ParserOperator" where
  "example_operator =
     \<lparr> p_TransformerOperator = ''demo'',
       p_ParseFrom = BodyField [],
       p_ParseTo = AttributeField [],
       p_TimeParser = Some example_TimeParser,
       p_SeverityParser = Some example_SeverityParser,
       p_TraceParser = Some example_TraceParser,
       p_ScopeNameParser = Some example_ScopeNameParser \<rparr>"

definition example_entry :: Entry where
  "example_entry =
     \<lparr> Timestamp = None, Body = VStr ''ERROR boom'', Attributes = [], Resource = [],
       Severity = None, TraceContext = None, ScopeName = None \<rparr>"

definition example_parsed :: val where
  "example_parsed = VMap [(''level'', VStr ''ERROR''), (''message'', VStr ''boom'')]"

definition example_written :: Entry where
  "example_written =
     example_entry\<lparr>Attributes := [(''level'', VStr ''ERROR''), (''message'', VStr ''boom'')]\<rparr>"

definition example_enriched :: Entry where
  "example_enriched = example_written\<lparr>Severity := Some 17, ScopeName := Some ''boom''\<rparr>"

definition example_operator_no_time :: "string ParserOperator" where
  "example_operator_no_time = example_operator\<lparr>p_TimeParser := None\<rparr>"

definition example_operator_lenient :: "string ParserOperator" where
  "example_operator_lenient = example_operator\<lparr>p_TimeParser := None, p_TraceParser := None\<rparr>"

definition example_cb :: "Entry \<Rightarrow> Entry \<times> error option" where
  "example_cb e = (e, Some (ErrorString ''callback failed''))"

definition example_config_bad_trace :: "string ParserConfig" where
  "example_config_bad_trace =
     example_config
       \<lparr> c_TraceParser :=
           Some (example_TraceParser\<lparr>TraceParser_Validate := Some (ErrorString ''invalid trace'')\<rparr>) \<rparr>"

section \<open>Properties\<close>

subsection \<open>Evaluation of the concrete operator\<close>

lemmas example_defs =
  example_env_def example_Skip_def example_parse_def example_read_time_def
  example_read_severity_def example_read_trace_def example_read_scope_def
  example_TimeParser_def example_SeverityParser_def example_TraceParser_def
  example_ScopeNameParser_def example_operator_def example_entry_def

lemmas example_results =
  example_parsed_def example_written_def example_enriched_def

lemmas run_defs =
  run_TimeParser_def run_SeverityParser_def run_TraceParser_def run_ScopeNameParser_def
  slot_Timestamp_def slot_Severity_def slot_TraceContext_def slot_ScopeName_def

subsection \<open>The calls of the four sub-parser blocks\<close>

lemma run_TimeParser_calls:
  "run_TimeParser p e tr = (r, e', tr') \<Longrightarrow>
   tr' = tr @ (case p_TimeParser p of None \<Rightarrow> [] | Some _ \<Rightarrow> [TimeParser_Parse_called])"
  by (auto simp: run_TimeParser_def split: option.splits prod.splits)

lemma run_SeverityParser_calls:
  "run_SeverityParser p e tr = (r, e', tr') \<Longrightarrow>
   tr' = tr @ (case p_SeverityParser p of None \<Rightarrow> [] | Some _ \<Rightarrow> [SeverityParser_Parse_called])"
  by (auto simp: run_SeverityParser_def split: option.splits prod.splits)

lemma run_TraceParser_calls:
  "run_TraceParser p e tr = (r, e', tr') \<Longrightarrow>
   tr' = tr @ (case p_TraceParser p of None \<Rightarrow> [] | Some _ \<Rightarrow> [TraceParser_Parse_called])"
  by (auto simp: run_TraceParser_def split: option.splits prod.splits)

lemma run_ScopeNameParser_calls:
  "run_ScopeNameParser p e tr = (r, e', tr') \<Longrightarrow>
   tr' = tr @ (case p_ScopeNameParser p of None \<Rightarrow> [] | Some _ \<Rightarrow> [ScopeNameParser_Parse_called])"
  by (auto simp: run_ScopeNameParser_def split: option.splits prod.splits)

lemma sub_parsers_trace:
  assumes "run_TimeParser p e1 tr1 = (timeErr, e2, tr2)"
      and "run_SeverityParser p e2 tr2 = (sevErr, e3, tr3)"
      and "run_TraceParser p e3 tr3 = (traceErr, e4, tr4)"
      and "run_ScopeNameParser p e4 tr4 = (scopeErr, e5, tr5)"
  shows "tr5 = tr1 @ sub_parser_calls p"
  using run_TimeParser_calls[OF assms(1)] run_SeverityParser_calls[OF assms(2)]
        run_TraceParser_calls[OF assms(3)] run_ScopeNameParser_calls[OF assms(4)]
  by (simp add: sub_parser_calls_def)

lemma sub_parser_calls_plain:
  "cb_called \<notin> set (sub_parser_calls p)"
  "filter is_Write_called (sub_parser_calls p) = []"
  "filter is_HandleEntryError_called (sub_parser_calls p) = []"
  by (simp_all add: sub_parser_calls_def split: option.splits)

subsection \<open>\<^verbatim>\<open>ParseWith\<close> once the parsed value is written\<close>

lemma ParseWith_after_Set:
  assumes "Entry_Get E e (p_ParseFrom p) = (v, True)"
      and "parse v = (v', None)"
      and "Entry_Set E e (p_ParseTo p) v' = (e1, None)"
      and "run_TimeParser p e1 (tr @ [Get_called (p_ParseFrom p), parse_called v, Set_called (p_ParseTo p) v']) = (timeErr, e2, tr2)"
      and "run_SeverityParser p e2 tr2 = (sevErr, e3, tr3)"
      and "run_TraceParser p e3 tr3 = (traceErr, e4, tr4)"
      and "run_ScopeNameParser p e4 tr4 = (scopeErr, e5, tr5)"
  shows "ParseWith E p e tr parse =
           (case first_failure [(timeErr, ''time parser''), (sevErr, ''severity parser''),
                                (traceErr, ''trace parser''), (scopeErr, ''scope_name parser'')] of
              None \<Rightarrow> (None, e5, tr5)
            | Some err \<Rightarrow> call_HandleEntryError E p e5 tr5 err)"
  using assms by (simp add: ParseWith_def split: option.splits)

text \<open>
  Whatever happens, \<^verbatim>\<open>ParseWith\<close> only adds calls to those made before; it never
  calls the callback and never forwards the entry itself; and if it returns nil under an
  error policy that never returns nil, it has not called the error policy.
\<close>

lemma ParseWith_calls:
  "\<exists>calls.
     snd (snd (ParseWith E p e tr parse)) = tr @ calls \<and>
     cb_called \<notin> set calls \<and>
     filter is_Write_called calls = [] \<and>
     (fst (ParseWith E p e tr parse) = None \<longrightarrow>
      (\<forall>t x err. HandleEntryError E t x err \<noteq> None) \<longrightarrow>
      filter is_HandleEntryError_called calls = [])"
proof -
  obtain v ok where g: "Entry_Get E e (p_ParseFrom p) = (v, ok)"
    by (cases "Entry_Get E e (p_ParseFrom p)")
  obtain v' perr where pa: "parse v = (v', perr)" by (cases "parse v")
  obtain e1 serr where st: "Entry_Set E e (p_ParseTo p) v' = (e1, serr)"
    by (cases "Entry_Set E e (p_ParseTo p) v'")
  let ?tr1 = "tr @ [Get_called (p_ParseFrom p), parse_called v, Set_called (p_ParseTo p) v']"
  obtain timeErr e2 tr2 where t: "run_TimeParser p e1 ?tr1 = (timeErr, e2, tr2)"
    by (cases "run_TimeParser p e1 ?tr1")
  obtain sevErr e3 tr3 where s: "run_SeverityParser p e2 tr2 = (sevErr, e3, tr3)"
    by (cases "run_SeverityParser p e2 tr2")
  obtain traceErr e4 tr4 where c: "run_TraceParser p e3 tr3 = (traceErr, e4, tr4)"
    by (cases "run_TraceParser p e3 tr3")
  obtain scopeErr e5 tr5 where n: "run_ScopeNameParser p e4 tr4 = (scopeErr, e5, tr5)"
    by (cases "run_ScopeNameParser p e4 tr4")
  have tr5: "tr5 = ?tr1 @ sub_parser_calls p" using t s c n by (rule sub_parsers_trace)
  let ?ff = "first_failure [(timeErr, ''time parser''), (sevErr, ''severity parser''),
                            (traceErr, ''trace parser''), (scopeErr, ''scope_name parser'')]"
  consider (missing) "\<not> ok"
    | (parse_failed) er where "ok" "perr = Some er"
    | (set_failed) er where "ok" "perr = None" "serr = Some er"
    | (enriched) "ok" "perr = None" "serr = None" "?ff = None"
    | (enrich_failed) er where "ok" "perr = None" "serr = None" "?ff = Some er"
    by (cases ok; cases perr; cases serr; cases ?ff) auto
  then show ?thesis
  proof cases
    case missing
    show ?thesis
      by (rule exI[of _ "[Get_called (p_ParseFrom p),
            HandleEntryError_called e
              (NewError ''Entry is missing the expected parse_from field.''
                 ''Ensure that all incoming entries contain the parse_from field.''
                 [(''parse_from'', Field_String E (p_ParseFrom p))])]"])
         (use missing g in \<open>auto simp: ParseWith_def call_HandleEntryError_def\<close>)
  next
    case parse_failed
    show ?thesis
      by (rule exI[of _ "[Get_called (p_ParseFrom p), parse_called v, HandleEntryError_called e er]"])
         (use parse_failed g pa in \<open>auto simp: ParseWith_def call_HandleEntryError_def\<close>)
  next
    case set_failed
    show ?thesis
      by (rule exI[of _ "[Get_called (p_ParseFrom p), parse_called v, Set_called (p_ParseTo p) v',
                         HandleEntryError_called e1 (Wrap er ''set parse_to'')]"])
         (use set_failed g pa st in \<open>auto simp: ParseWith_def call_HandleEntryError_def\<close>)
  next
    case enriched
    have "ParseWith E p e tr parse = (None, e5, tr5)"
      using ParseWith_after_Set[of E e p v parse v' e1 tr, OF _ _ _ t s c n] enriched g pa st
      by simp
    then show ?thesis
      by (intro exI[of _ "[Get_called (p_ParseFrom p), parse_called v, Set_called (p_ParseTo p) v']
                          @ sub_parser_calls p"])
         (auto simp: tr5 sub_parser_calls_plain)
  next
    case enrich_failed
    have "ParseWith E p e tr parse = call_HandleEntryError E p e5 tr5 er"
      using ParseWith_after_Set[of E e p v parse v' e1 tr, OF _ _ _ t s c n] enrich_failed g pa st
      by simp
    then show ?thesis
      by (intro exI[of _ "[Get_called (p_ParseFrom p), parse_called v, Set_called (p_ParseTo p) v']
                          @ sub_parser_calls p @ [HandleEntryError_called e5 er]"])
         (auto simp: tr5 sub_parser_calls_plain call_HandleEntryError_def)
  qed
qed

subsection \<open>The slot sub-parsers\<close>





subsection \<open>\<^verbatim>\<open>Build\<close>\<close>

lemma Build_error: "snd (Build E c) = first_error (build_checks E c)"
  by (auto simp: Build_def build_checks_def Let_def split: prod.splits option.splits)

lemma Build_ScopeNameParser:
  "snd (Build E c) = None \<Longrightarrow> p_ScopeNameParser (fst (Build E c)) = c_ScopeNameParser c"
  by (auto simp: Build_def Let_def split: prod.splits option.splits)

lemma first_error_None: "(first_error rs = None) = list_all (\<lambda>r. r = None) rs"
  by (induction rs rule: first_error.induct) simp_all

section \<open>The claims\<close>

subsection \<open>The reported error\<close>

text \<open>
  C1. Take an entry on which \<^verbatim>\<open>parse_from\<close> is found, the parse function succeeds and
  the write to \<^verbatim>\<open>parse_to\<close> succeeds, leaving the entry \<open>e1\<close>. Let \<open>timeErr\<close> be
  what \<^verbatim>\<open>Parse\<close> of the time sub-parser returns on \<open>e1\<close> (nil when no time sub-parser
  is configured) and \<open>e2\<close> the entry it leaves; let \<open>sevErr\<close>, \<open>traceErr\<close> and
  \<open>scopeErr\<close> be what \<^verbatim>\<open>Parse\<close> of the severity, trace and scope-name sub-parsers
  return, each on the entry left by the one before. If at least one of the four is an
  error, \<^verbatim>\<open>ParseWith\<close> hands exactly one error to the error policy, after the calls of
  the sub-parsers: the first failure in the order time, severity, trace, scope name,
  wrapped with the name of its sub-parser. The other failures appear nowhere, and
  \<^verbatim>\<open>ParseWith\<close> returns what the error policy returns.
\<close>

theorem ParseWith_reports_first_failure:
  assumes "Entry_Get E e (p_ParseFrom p) = (v, True)"
      and "parse v = (v', None)"
      and "Entry_Set E e (p_ParseTo p) v' = (e1, None)"
      and "(case p_TimeParser p of
              None \<Rightarrow> (e1, None) | Some tp \<Rightarrow> TimeParser_Parse tp e1) = (e2, timeErr)"
      and "(case p_SeverityParser p of
              None \<Rightarrow> (e2, None) | Some sp \<Rightarrow> SeverityParser_Parse sp e2) = (e3, sevErr)"
      and "(case p_TraceParser p of
              None \<Rightarrow> (e3, None) | Some trp \<Rightarrow> TraceParser_Parse trp e3) = (e4, traceErr)"
      and "(case p_ScopeNameParser p of
              None \<Rightarrow> (e4, None) | Some snp \<Rightarrow> ScopeNameParser_Parse snp e4) = (e5, scopeErr)"
      and "timeErr \<noteq> None \<or> sevErr \<noteq> None \<or> traceErr \<noteq> None \<or> scopeErr \<noteq> None"
  shows "\<exists>err. first_failure [(timeErr, ''time parser''), (sevErr, ''severity parser''),
                              (traceErr, ''trace parser''), (scopeErr, ''scope_name parser'')]
               = Some err \<and>
           ParseWith E p e tr parse =
             (HandleEntryError E (p_TransformerOperator p) e5 err, e5,
              tr @ [Get_called (p_ParseFrom p), parse_called v, Set_called (p_ParseTo p) v']
                 @ sub_parser_calls p @ [HandleEntryError_called e5 err])"
proof -
  let ?tr1 = "tr @ [Get_called (p_ParseFrom p), parse_called v, Set_called (p_ParseTo p) v']"
  let ?ff = "first_failure [(timeErr, ''time parser''), (sevErr, ''severity parser''),
                            (traceErr, ''trace parser''), (scopeErr, ''scope_name parser'')]"
  obtain tr2 where t: "run_TimeParser p e1 ?tr1 = (timeErr, e2, tr2)"
    using assms(4) by (cases "p_TimeParser p") (auto simp: run_TimeParser_def)
  obtain tr3 where s: "run_SeverityParser p e2 tr2 = (sevErr, e3, tr3)"
    using assms(5) by (cases "p_SeverityParser p") (auto simp: run_SeverityParser_def)
  obtain tr4 where c: "run_TraceParser p e3 tr3 = (traceErr, e4, tr4)"
    using assms(6) by (cases "p_TraceParser p") (auto simp: run_TraceParser_def)
  obtain tr5 where n: "run_ScopeNameParser p e4 tr4 = (scopeErr, e5, tr5)"
    using assms(7) by (cases "p_ScopeNameParser p") (auto simp: run_ScopeNameParser_def)
  obtain err where err: "?ff = Some err"
    using assms(8) by (cases timeErr; cases sevErr; cases traceErr; cases scopeErr) auto
  have "tr5 = ?tr1 @ sub_parser_calls p"
    using t s c n by (rule sub_parsers_trace)
  moreover have "ParseWith E p e tr parse = call_HandleEntryError E p e5 tr5 err"
    using ParseWith_after_Set[where parse = parse and v = v, OF assms(1-3) t s c n] err by simp
  ultimately show ?thesis using err by (simp add: call_HandleEntryError_def)
qed

text \<open>
  On the concrete operator the time and the trace sub-parsers both fail: the error handed
  to the policy is the time sub-parser's, and the trace sub-parser's is dropped. On the
  same operator without its time sub-parser only the trace sub-parser fails, between two
  that succeed: the error handed to the policy is the trace sub-parser's.
\<close>

theorem ParseWith_reports_first_failure_witness:
  "ParseWith example_env example_operator example_entry [] example_parse =
     (Some (Wrap (ErrorString ''no timestamp'') ''time parser''),
      example_enriched,
      [Get_called (BodyField []), parse_called (VStr ''ERROR boom''),
       Set_called (AttributeField []) example_parsed,
       TimeParser_Parse_called, SeverityParser_Parse_called,
       TraceParser_Parse_called, ScopeNameParser_Parse_called,
       HandleEntryError_called example_enriched
         (Wrap (ErrorString ''no timestamp'') ''time parser'')]) \<and>
   ParseWith example_env example_operator_no_time example_entry [] example_parse =
     (Some (Wrap (ErrorString ''no trace id'') ''trace parser''),
      example_enriched,
      [Get_called (BodyField []), parse_called (VStr ''ERROR boom''),
       Set_called (AttributeField []) example_parsed,
       SeverityParser_Parse_called, TraceParser_Parse_called, ScopeNameParser_Parse_called,
       HandleEntryError_called example_enriched
         (Wrap (ErrorString ''no trace id'') ''trace parser'')])"
proof -
  have g: "Entry_Get example_env example_entry (p_ParseFrom example_operator)
             = (VStr ''ERROR boom'', True)"
    by (simp add: example_defs)
  have pa: "example_parse (VStr ''ERROR boom'') = (example_parsed, None)"
    by (simp add: example_defs example_results)
  have st: "Entry_Set example_env example_entry (p_ParseTo example_operator) example_parsed
              = (example_written, None)"
    by (simp add: example_defs example_results)
  have t: "(case p_TimeParser example_operator of
              None \<Rightarrow> (example_written, None)
            | Some tp \<Rightarrow> TimeParser_Parse tp example_written)
           = (example_written, Some (ErrorString ''no timestamp''))"
    by (simp add: example_defs example_results slot_Timestamp_def)
  have s: "(case p_SeverityParser example_operator of
              None \<Rightarrow> (example_written, None)
            | Some sp \<Rightarrow> SeverityParser_Parse sp example_written)
           = (example_written\<lparr>Severity := Some 17\<rparr>, None)"
    by (simp add: example_defs example_results slot_Severity_def)
  have c: "(case p_TraceParser example_operator of
              None \<Rightarrow> (example_written\<lparr>Severity := Some 17\<rparr>, None)
            | Some trp \<Rightarrow> TraceParser_Parse trp (example_written\<lparr>Severity := Some 17\<rparr>))
           = (example_written\<lparr>Severity := Some 17\<rparr>, Some (ErrorString ''no trace id''))"
    by (simp add: example_defs example_results slot_TraceContext_def)
  have n: "(case p_ScopeNameParser example_operator of
              None \<Rightarrow> (example_written\<lparr>Severity := Some 17\<rparr>, None)
            | Some snp \<Rightarrow> ScopeNameParser_Parse snp (example_written\<lparr>Severity := Some 17\<rparr>))
           = (example_enriched, None)"
    by (simp add: example_defs example_results slot_ScopeName_def)
  have f: "Some (ErrorString ''no timestamp'') \<noteq> None \<or> (None :: error option) \<noteq> None \<or>
           Some (ErrorString ''no trace id'') \<noteq> None \<or> (None :: error option) \<noteq> None"
    by simp
  have g': "Entry_Get example_env example_entry (p_ParseFrom example_operator_no_time)
             = (VStr ''ERROR boom'', True)"
    by (simp add: example_defs example_operator_no_time_def)
  have st': "Entry_Set example_env example_entry (p_ParseTo example_operator_no_time)
               example_parsed = (example_written, None)"
    by (simp add: example_defs example_results example_operator_no_time_def)
  have t': "(case p_TimeParser example_operator_no_time of
              None \<Rightarrow> (example_written, None)
            | Some tp \<Rightarrow> TimeParser_Parse tp example_written)
           = (example_written, None)"
    by (simp add: example_defs example_operator_no_time_def)
  have s': "(case p_SeverityParser example_operator_no_time of
              None \<Rightarrow> (example_written, None)
            | Some sp \<Rightarrow> SeverityParser_Parse sp example_written)
           = (example_written\<lparr>Severity := Some 17\<rparr>, None)"
    using s by (simp add: example_operator_no_time_def)
  have c': "(case p_TraceParser example_operator_no_time of
              None \<Rightarrow> (example_written\<lparr>Severity := Some 17\<rparr>, None)
            | Some trp \<Rightarrow> TraceParser_Parse trp (example_written\<lparr>Severity := Some 17\<rparr>))
           = (example_written\<lparr>Severity := Some 17\<rparr>, Some (ErrorString ''no trace id''))"
    using c by (simp add: example_operator_no_time_def)
  have n': "(case p_ScopeNameParser example_operator_no_time of
              None \<Rightarrow> (example_written\<lparr>Severity := Some 17\<rparr>, None)
            | Some snp \<Rightarrow> ScopeNameParser_Parse snp (example_written\<lparr>Severity := Some 17\<rparr>))
           = (example_enriched, None)"
    using n by (simp add: example_operator_no_time_def)
  have f': "(None :: error option) \<noteq> None \<or> (None :: error option) \<noteq> None \<or>
            Some (ErrorString ''no trace id'') \<noteq> None \<or> (None :: error option) \<noteq> None"
    by simp
  from ParseWith_reports_first_failure
         [where parse = example_parse and v = "VStr ''ERROR boom''" and tr = "[]",
          OF g pa st t s c n f]
  have both: "ParseWith example_env example_operator example_entry [] example_parse =
     (Some (Wrap (ErrorString ''no timestamp'') ''time parser''),
      example_enriched,
      [Get_called (BodyField []), parse_called (VStr ''ERROR boom''),
       Set_called (AttributeField []) example_parsed,
       TimeParser_Parse_called, SeverityParser_Parse_called,
       TraceParser_Parse_called, ScopeNameParser_Parse_called,
       HandleEntryError_called example_enriched
         (Wrap (ErrorString ''no timestamp'') ''time parser'')])"
    by (auto simp: sub_parser_calls_def example_operator_def example_env_def)
  from ParseWith_reports_first_failure
         [where parse = example_parse and v = "VStr ''ERROR boom''" and tr = "[]",
          OF g' pa st' t' s' c' n' f']
  have only_trace:
    "ParseWith example_env example_operator_no_time example_entry [] example_parse =
     (Some (Wrap (ErrorString ''no trace id'') ''trace parser''),
      example_enriched,
      [Get_called (BodyField []), parse_called (VStr ''ERROR boom''),
       Set_called (AttributeField []) example_parsed,
       SeverityParser_Parse_called, TraceParser_Parse_called, ScopeNameParser_Parse_called,
       HandleEntryError_called example_enriched
         (Wrap (ErrorString ''no trace id'') ''trace parser'')])"
    by (auto simp: sub_parser_calls_def example_operator_no_time_def example_operator_def
                   example_env_def)
  from both only_trace show ?thesis by (rule conjI)
qed

subsection \<open>Every configured sub-parser runs\<close>



subsection \<open>The callback\<close>

text \<open>
  C3. In \<^verbatim>\<open>ProcessWithCallback\<close> the callback is called only if a callback was supplied,
  the skip condition was evaluated to false without error, and \<^verbatim>\<open>ParseWith\<close> returned
  nil. If it is called and returns an error, \<^verbatim>\<open>ProcessWithCallback\<close> returns that very
  error and the call of the callback is its last call: the error is not handed to the
  error policy and the entry is not forwarded. Among all the calls of this run there is
  no \<^verbatim>\<open>Write\<close>, and, when the error policy never returns nil, no \<^verbatim>\<open>HandleEntryError\<close>
  either.
\<close>

theorem ProcessWithCallback_callback_error:
  "(cb_called \<in> set (drop (length tr) (snd (snd (ProcessWithCallback E p e tr parse cb)))) \<longrightarrow>
      cb \<noteq> None \<and> Skip E (p_TransformerOperator p) e = (False, None) \<and>
      fst (ParseWith E p e (tr @ [Skip_called]) parse) = None) \<and>
   (Skip E (p_TransformerOperator p) e = (False, None) \<longrightarrow>
    ParseWith E p e (tr @ [Skip_called]) parse = (None, e', tr') \<longrightarrow>
    cb = Some f \<longrightarrow> f e' = (e'', Some err) \<longrightarrow>
      ProcessWithCallback E p e tr parse cb = (Some err, e'', tr' @ [cb_called]) \<and>
      filter is_Write_called (drop (length tr) (tr' @ [cb_called])) = [] \<and>
      ((\<forall>t x er. HandleEntryError E t x er \<noteq> None) \<longrightarrow>
         filter is_HandleEntryError_called (drop (length tr) (tr' @ [cb_called])) = []))"
proof -
  from ParseWith_calls[of E p e "tr @ [Skip_called]" parse]
  obtain calls where
    "snd (snd (ParseWith E p e (tr @ [Skip_called]) parse)) = (tr @ [Skip_called]) @ calls \<and>
     cb_called \<notin> set calls \<and>
     filter is_Write_called calls = [] \<and>
     (fst (ParseWith E p e (tr @ [Skip_called]) parse) = None \<longrightarrow>
      (\<forall>t x err. HandleEntryError E t x err \<noteq> None) \<longrightarrow>
      filter is_HandleEntryError_called calls = [])" ..
  then have calls:
    "snd (snd (ParseWith E p e (tr @ [Skip_called]) parse)) = (tr @ [Skip_called]) @ calls"
    "cb_called \<notin> set calls"
    "filter is_Write_called calls = []"
    "fst (ParseWith E p e (tr @ [Skip_called]) parse) = None \<longrightarrow>
       (\<forall>t x er. HandleEntryError E t x er \<noteq> None) \<longrightarrow>
       filter is_HandleEntryError_called calls = []"
    by simp_all
  obtain skip serr where sk: "Skip E (p_TransformerOperator p) e = (skip, serr)"
    by (cases "Skip E (p_TransformerOperator p) e")
  obtain r e1 tr1 where pw: "ParseWith E p e (tr @ [Skip_called]) parse = (r, e1, tr1)"
    by (cases "ParseWith E p e (tr @ [Skip_called]) parse")
  have tr1: "tr1 = tr @ Skip_called # calls" using calls(1) pw by simp
  have only: "cb_called \<in> set (drop (length tr) (snd (snd (ProcessWithCallback E p e tr parse cb)))) \<longrightarrow>
      cb \<noteq> None \<and> Skip E (p_TransformerOperator p) e = (False, None) \<and>
      fst (ParseWith E p e (tr @ [Skip_called]) parse) = None"
    using calls(2)
    by (cases serr; cases skip; cases r; cases cb)
       (auto simp: ProcessWithCallback_def Let_def call_HandleEntryError_def call_Write_def
                   sk pw tr1 split: prod.splits option.splits)
  have direct:
    "Skip E (p_TransformerOperator p) e = (False, None) \<longrightarrow>
     ParseWith E p e (tr @ [Skip_called]) parse = (None, e', tr') \<longrightarrow>
     cb = Some f \<longrightarrow> f e' = (e'', Some err) \<longrightarrow>
       ProcessWithCallback E p e tr parse cb = (Some err, e'', tr' @ [cb_called]) \<and>
       filter is_Write_called (drop (length tr) (tr' @ [cb_called])) = [] \<and>
       ((\<forall>t x er. HandleEntryError E t x er \<noteq> None) \<longrightarrow>
          filter is_HandleEntryError_called (drop (length tr) (tr' @ [cb_called])) = [])"
  proof (intro impI)
    assume a1: "Skip E (p_TransformerOperator p) e = (False, None)"
       and a2: "ParseWith E p e (tr @ [Skip_called]) parse = (None, e', tr')"
       and a3: "cb = Some f"
       and a4: "f e' = (e'', Some err)"
    have tr': "tr' = tr @ Skip_called # calls" using a2 pw tr1 by simp
    have "ProcessWithCallback E p e tr parse cb = (Some err, e'', tr' @ [cb_called])"
      using a1 a2 a3 a4 by (simp add: ProcessWithCallback_def)
    moreover have "filter is_Write_called (drop (length tr) (tr' @ [cb_called])) = []"
      using calls(3) by (simp add: tr')
    moreover have "(\<forall>t x er. HandleEntryError E t x er \<noteq> None) \<longrightarrow>
        filter is_HandleEntryError_called (drop (length tr) (tr' @ [cb_called])) = []"
      using calls(4) a2 by (simp add: tr')
    ultimately show
      "ProcessWithCallback E p e tr parse cb = (Some err, e'', tr' @ [cb_called]) \<and>
       filter is_Write_called (drop (length tr) (tr' @ [cb_called])) = [] \<and>
       ((\<forall>t x er. HandleEntryError E t x er \<noteq> None) \<longrightarrow>
          filter is_HandleEntryError_called (drop (length tr) (tr' @ [cb_called])) = [])"
      by blast
  qed
  show ?thesis using only direct by blast
qed

text \<open>
  On the operator without time and trace sub-parsers \<^verbatim>\<open>ParseWith\<close> succeeds; the
  callback then fails, and its error comes back with the callback as the last call.
\<close>

theorem ProcessWithCallback_callback_error_witness:
  "ProcessWithCallback example_env example_operator_lenient example_entry [] example_parse
       (Some example_cb) =
     (Some (ErrorString ''callback failed''), example_enriched,
      [Skip_called, Get_called (BodyField []), parse_called (VStr ''ERROR boom''),
       Set_called (AttributeField []) example_parsed,
       SeverityParser_Parse_called, ScopeNameParser_Parse_called, cb_called])"
proof -
  have sk: "Skip example_env (p_TransformerOperator example_operator_lenient) example_entry
              = (False, None)"
    by (simp add: example_defs example_operator_lenient_def)
  have pw: "ParseWith example_env example_operator_lenient example_entry ([] @ [Skip_called])
              example_parse =
            (None, example_enriched,
             [Skip_called, Get_called (BodyField []), parse_called (VStr ''ERROR boom''),
              Set_called (AttributeField []) example_parsed,
              SeverityParser_Parse_called, ScopeNameParser_Parse_called])"
    by (simp add: ParseWith_def example_defs example_results example_operator_lenient_def
                  run_defs)
  have cb: "example_cb example_enriched = (example_enriched, Some (ErrorString ''callback failed''))"
    by (simp add: example_cb_def)
  from ProcessWithCallback_callback_error
         [where cb = "Some example_cb" and f = example_cb and tr = "[]",
          THEN conjunct2, rule_format, OF sk pw refl cb]
  show ?thesis by simp
qed

subsection \<open>Build-time validation\<close>

text \<open>
  C4, as amended. For every configuration, \<^verbatim>\<open>Build\<close> checks, in this order, the
  transformer configuration, \<^verbatim>\<open>Validate()\<close> of the time sub-parser, \<^verbatim>\<open>Build\<close> of the
  severity configuration and \<^verbatim>\<open>Validate()\<close> of the trace sub-parser, each sub-parser only
  when it is present; it returns the first error among them, and so fails exactly when
  one of them fails. The scope-name sub-parser is not validated: when \<^verbatim>\<open>Build\<close>
  succeeds the operator holds the scope-name sub-parser of the configuration as it is.
\<close>

theorem Build_validation:
  "snd (Build E c) = first_error (build_checks E c) \<and>
   (snd (Build E c) = None) = list_all (\<lambda>r. r = None) (build_checks E c) \<and>
   (snd (Build E c) = None \<longrightarrow> p_ScopeNameParser (fst (Build E c)) = c_ScopeNameParser c)"
  using Build_error[of E c] Build_ScopeNameParser[of E c] first_error_None[of "build_checks E c"]
  by simp

theorem Build_validation_witness:
  "snd (Build example_env example_config_bad_trace) = Some (ErrorString ''invalid trace'') \<and>
   snd (Build example_env example_config) = None \<and>
   p_ScopeNameParser (fst (Build example_env example_config)) = Some example_ScopeNameParser"
  using Build_validation[of example_env example_config_bad_trace]
        Build_validation[of example_env example_config]
  by (simp add: build_checks_def example_defs example_config_def example_config_bad_trace_def
                NewParserConfig_def)

text \<open>
  C4 as stated fails: in \<open>example_config\<close> the scope-name sub-parser is configured and
  its validation reports an error, and \<^verbatim>\<open>Build\<close> returns no error.
\<close>

theorem Build_validation_counterexample:
  "c_ScopeNameParser example_config = Some example_ScopeNameParser \<and>
   ScopeNameParser_Validate example_ScopeNameParser = Some (ErrorString ''invalid scope_name'') \<and>
   snd (Build example_env example_config) = None"
  by (simp add: Build_def example_defs example_config_def NewParserConfig_def)

subsection \<open>Skipped entries\<close>

text \<open>
  C5. If the skip condition evaluates to true on an entry, \<^verbatim>\<open>ProcessWithCallback\<close>
  returns nil, leaves the entry as it is and forwards it; its only calls are the
  evaluation of the condition and \<^verbatim>\<open>Write\<close>: no field is read or written through
  \<^verbatim>\<open>Get\<close> or \<^verbatim>\<open>Set\<close>, the parse function is not called, no sub-parser runs.
\<close>

theorem ProcessWithCallback_skip:
  assumes "Skip E (p_TransformerOperator p) e = (True, None)"
  shows "ProcessWithCallback E p e tr parse cb = (None, e, tr @ [Skip_called, Write_called e])"
  using assms by (simp add: ProcessWithCallback_def call_Write_def)

theorem ProcessWithCallback_skip_witness:
  "ProcessWithCallback example_env example_operator (example_entry\<lparr>Body := VNil\<rparr>) []
       example_parse (Some example_cb) =
     (None, example_entry\<lparr>Body := VNil\<rparr>,
      [Skip_called, Write_called (example_entry\<lparr>Body := VNil\<rparr>)])"
proof -
  have sk: "Skip example_env (p_TransformerOperator example_operator)
              (example_entry\<lparr>Body := VNil\<rparr>) = (True, None)"
    by (simp add: example_defs)
  from ProcessWithCallback_skip[OF sk, of "[]" example_parse "Some example_cb"]
  show ?thesis by simp
qed

subsection \<open>A missing \<^verbatim>\<open>parse_from\<close> field\<close>

text \<open>
  C6. If \<^verbatim>\<open>parse_from\<close> is not found in the entry, \<^verbatim>\<open>ParseWith\<close> leaves the entry as it
  is, hands the entry and the missing-field error (which names \<^verbatim>\<open>parse_from\<close>) to the
  error policy, and returns what the policy returns; its only calls are \<^verbatim>\<open>Get\<close> and
  \<^verbatim>\<open>HandleEntryError\<close>: the parse function is not called, \<^verbatim>\<open>parse_to\<close> is not written, no
  sub-parser runs.
\<close>

theorem ParseWith_missing_parse_from:
  assumes "Entry_Get E e (p_ParseFrom p) = (v, False)"
      and "err = NewError ''Entry is missing the expected parse_from field.''
                   ''Ensure that all incoming entries contain the parse_from field.''
                   [(''parse_from'', Field_String E (p_ParseFrom p))]"
  shows "ParseWith E p e tr parse =
           (HandleEntryError E (p_TransformerOperator p) e err, e,
            tr @ [Get_called (p_ParseFrom p), HandleEntryError_called e err])"
  using assms by (simp add: ParseWith_def call_HandleEntryError_def)

theorem ParseWith_missing_parse_from_witness:
  "ParseWith example_env (example_operator\<lparr>p_ParseFrom := BodyField [Key ''raw'']\<rparr>)
       example_entry [] example_parse =
     (Some (NewError ''Entry is missing the expected parse_from field.''
              ''Ensure that all incoming entries contain the parse_from field.''
              [(''parse_from'', ''field'')]),
      example_entry,
      [Get_called (BodyField [Key ''raw'']),
       HandleEntryError_called example_entry
         (NewError ''Entry is missing the expected parse_from field.''
            ''Ensure that all incoming entries contain the parse_from field.''
            [(''parse_from'', ''field'')])])"
proof -
  have g: "Entry_Get example_env example_entry
             (p_ParseFrom (example_operator\<lparr>p_ParseFrom := BodyField [Key ''raw'']\<rparr>))
           = (VNil, False)"
    by (simp add: example_defs)
  from ParseWith_missing_parse_from[OF g refl, of "[]" example_parse]
  show ?thesis by (simp add: example_env_def)
qed

subsection \<open>A failing parse function\<close>

text \<open>
  C7. If \<^verbatim>\<open>parse_from\<close> is found and the parse function returns an error,
  \<^verbatim>\<open>ParseWith\<close> leaves the entry as it is, hands the entry and that error to the error
  policy, and returns what the policy returns; its only calls are \<^verbatim>\<open>Get\<close>, the parse
  function and \<^verbatim>\<open>HandleEntryError\<close>: \<^verbatim>\<open>parse_to\<close> is not written and no sub-parser runs.
\<close>

theorem ParseWith_parse_error:
  assumes "Entry_Get E e (p_ParseFrom p) = (v, True)"
      and "parse v = (v', Some err)"
  shows "ParseWith E p e tr parse =
           (HandleEntryError E (p_TransformerOperator p) e err, e,
            tr @ [Get_called (p_ParseFrom p), parse_called v, HandleEntryError_called e err])"
  using assms by (simp add: ParseWith_def call_HandleEntryError_def)

theorem ParseWith_parse_error_witness:
  "ParseWith example_env example_operator (example_entry\<lparr>Body := VInt 3\<rparr>) [] example_parse =
     (Some (ErrorString ''not a string''), example_entry\<lparr>Body := VInt 3\<rparr>,
      [Get_called (BodyField []), parse_called (VInt 3),
       HandleEntryError_called (example_entry\<lparr>Body := VInt 3\<rparr>) (ErrorString ''not a string'')])"
proof -
  have g: "Entry_Get example_env (example_entry\<lparr>Body := VInt 3\<rparr>) (p_ParseFrom example_operator)
             = (VInt 3, True)"
    by (simp add: example_defs)
  have pa: "example_parse (VInt 3) = (VNil, Some (ErrorString ''not a string''))"
    by (simp add: example_defs)
  from ParseWith_parse_error
         [where parse = example_parse and v = "VInt 3" and tr = "[]", OF g pa]
  show ?thesis by (simp add: example_operator_def example_env_def)
qed

subsection \<open>The default fields\<close>

text \<open>
  C8. For every operator id and type, the configuration made by \<^verbatim>\<open>NewParserConfig\<close> has
  as \<^verbatim>\<open>parse_from\<close> the body field with the empty path, which reads the whole body of
  any entry, and as \<^verbatim>\<open>parse_to\<close> the attribute field with the empty path, which reads
  the whole attribute mapping: the attributes root.
\<close>

theorem NewParserConfig_defaults:
  "c_ParseFrom (NewParserConfig E operatorID operatorType) = BodyField [] \<and>
   Field_Get e (c_ParseFrom (NewParserConfig E operatorID operatorType)) = (Body e, True) \<and>
   c_ParseTo (NewParserConfig E operatorID operatorType) = AttributeField [] \<and>
   Field_Get e (c_ParseTo (NewParserConfig E operatorID operatorType)) = (VMap (Attributes e), True)"
  by (simp add: NewParserConfig_def NewBodyField_def NewAttributeField_def)

subsection \<open>A skip condition that cannot be evaluated\<close>

text \<open>
  C9. If the evaluation of the skip condition returns an error, \<^verbatim>\<open>ProcessWithCallback\<close>
  hands the entry and that error to the error policy and returns what the policy
  returns, whatever boolean came with the error; the entry is left as it is, and the
  only calls are the evaluation of the condition and \<^verbatim>\<open>HandleEntryError\<close>: no parse
  function, no field read or write, no sub-parser, no callback, no forwarding by the
  operator itself.
\<close>

theorem ProcessWithCallback_skip_error:
  assumes "Skip E (p_TransformerOperator p) e = (skip, Some err)"
  shows "ProcessWithCallback E p e tr parse cb =
           (HandleEntryError E (p_TransformerOperator p) e err, e,
            tr @ [Skip_called, HandleEntryError_called e err])"
  using assms by (simp add: ProcessWithCallback_def call_HandleEntryError_def)

theorem ProcessWithCallback_skip_error_witness:
  "ProcessWithCallback example_env example_operator (example_entry\<lparr>Body := VSeq []\<rparr>) []
       example_parse (Some example_cb) =
     (Some (ErrorString ''if: body is a sequence''), example_entry\<lparr>Body := VSeq []\<rparr>,
      [Skip_called,
       HandleEntryError_called (example_entry\<lparr>Body := VSeq []\<rparr>)
         (ErrorString ''if: body is a sequence'')])"
proof -
  have sk: "Skip example_env (p_TransformerOperator example_operator)
              (example_entry\<lparr>Body := VSeq []\<rparr>)
            = (False, Some (ErrorString ''if: body is a sequence''))"
    by (simp add: example_defs)
  from ProcessWithCallback_skip_error[OF sk, of "[]" example_parse "Some example_cb"]
  show ?thesis by (simp add: example_env_def)
qed

subsection \<open>A failed \<^verbatim>\<open>Build\<close> returns the zero operator\<close>

text \<open>
  C10. Whenever \<^verbatim>\<open>Build\<close> returns an error, for whatever reason, the operator it
  returns with it is the zero value \<^verbatim>\<open>ParserOperator{}\<close>: nothing of what was built
  before the failure is returned.
\<close>

theorem Build_failure_returns_zero:
  assumes "snd (Build E c) \<noteq> None"
  shows "fst (Build E c) = zero_ParserOperator E"
  using assms by (auto simp: Build_def Let_def split: prod.splits option.splits)

text \<open>
  In \<open>example_config_bad_trace\<close> the transformer, the time sub-parser and the severity
  sub-parser are built before the validation of the trace sub-parser fails; none of them
  is in the result.
\<close>

theorem Build_failure_returns_zero_witness:
  "snd (Build example_env example_config_bad_trace) \<noteq> None \<and>
   fst (Build example_env example_config_bad_trace) = zero_ParserOperator example_env"
proof -
  have f: "snd (Build example_env example_config_bad_trace) \<noteq> None"
    by (simp add: Build_def example_defs example_config_def example_config_bad_trace_def
                  NewParserConfig_def)
  from f Build_failure_returns_zero[OF f] show ?thesis by simp
qed

end
